theory Spec2Isabelle
  imports Complex_Main
begin

section \<open>Data model\<close>

text \<open>
  The two services (\<^verbatim>\<open>backend/admin_backend/main.py\<close> and
  \<^verbatim>\<open>backend/driver_backend/main.py\<close>) work on the ORM classes of
  \<^verbatim>\<open>backend.shared.models\<close>. A point in time is a number of seconds.
\<close>

type_synonym datetime = nat

text \<open>Modelled from the spec: the enumeration \<^verbatim>\<open>UserRole\<close> of
  \<^verbatim>\<open>backend.shared.models\<close>, "one of dispatcher, driver, customer".\<close>

datatype UserRole = DISPATCHER | DRIVER | CUSTOMER

text \<open>Modelled from the spec: the \<^verbatim>\<open>.value\<close> of a role, the plain string the
  services compare with and put into responses.\<close>

fun role_value :: "UserRole \<Rightarrow> string" where
  "role_value DISPATCHER = ''dispatcher''"
| "role_value DRIVER = ''driver''"
| "role_value CUSTOMER = ''customer''"

text \<open>Modelled from the spec: the enumeration \<^verbatim>\<open>ShipmentStatus\<close> of
  \<^verbatim>\<open>backend.shared.models\<close>, the states PENDING, ASSIGNED, IN_TRANSIT, DELIVERED
  and CANCELLED of the shipment state machine.\<close>

datatype ShipmentStatus = PENDING | ASSIGNED | IN_TRANSIT | DELIVERED | CANCELLED

text \<open>Modelled from the spec: the \<^verbatim>\<open>.value\<close> of a status, its plain string form.\<close>

fun status_value :: "ShipmentStatus \<Rightarrow> string" where
  "status_value PENDING = ''PENDING''"
| "status_value ASSIGNED = ''ASSIGNED''"
| "status_value IN_TRANSIT = ''IN_TRANSIT''"
| "status_value DELIVERED = ''DELIVERED''"
| "status_value CANCELLED = ''CANCELLED''"

text \<open>Modelled from the spec: the enumeration \<^verbatim>\<open>MessageType\<close> of
  \<^verbatim>\<open>backend.shared.models\<close>, \<^verbatim>\<open>to_customer | to_driver\<close>.\<close>

datatype MessageType = TO_CUSTOMER | TO_DRIVER

text \<open>Modelled from the spec: the ORM class \<^verbatim>\<open>User\<close> of
  \<^verbatim>\<open>backend.shared.models\<close> (id, unique email, opaque password hash, name, phone,
  role, timestamps).\<close>

record User =
  id :: int
  email :: string
  password_hash :: string
  full_name :: string
  phone :: string
  role :: UserRole
  created_at :: datetime
  updated_at :: datetime

text \<open>Modelled from the spec: the ORM class \<^verbatim>\<open>Driver\<close> of
  \<^verbatim>\<open>backend.shared.models\<close>.\<close>

record Driver =
  id :: int
  full_name :: string
  phone :: string
  license_number :: string
  user_id :: "int option"

text \<open>Modelled from the spec: the ORM class \<^verbatim>\<open>Shipment\<close> of
  \<^verbatim>\<open>backend.shared.models\<close>; \<^verbatim>\<open>customer_id\<close> and \<^verbatim>\<open>driver_id\<close> are
  nullable references.\<close>

record Shipment =
  id :: int
  shipment_number :: string
  pickup_location :: string
  delivery_location :: string
  cargo_type :: string
  weight :: real
  dimensions :: string
  status :: ShipmentStatus
  customer_id :: "int option"
  driver_id :: "int option"
  created_at :: datetime
  updated_at :: datetime

text \<open>Modelled from the spec: the ORM class \<^verbatim>\<open>Message\<close> of
  \<^verbatim>\<open>backend.shared.models\<close>; \<^verbatim>\<open>shipment_id\<close> is nullable.\<close>

record Message =
  id :: int
  sender_id :: int
  recipient_id :: int
  shipment_id :: "int option"
  content :: string
  message_type :: MessageType
  created_at :: datetime
  is_read :: bool

text \<open>
  The database behind a \<^verbatim>\<open>Session\<close>: one list of rows per table, in storage order.
  Every function below takes the state and returns the state it leaves behind, on the
  error paths too.
\<close>

record Session =
  users :: "User list"
  drivers :: "Driver list"
  shipments :: "Shipment list"
  messages :: "Message list"

text \<open>
  What a handler raises: \<^verbatim>\<open>HTTPException(status_code, detail)\<close>, or the
  \<^verbatim>\<open>AttributeError\<close> of an attribute read on \<^verbatim>\<open>None\<close>.
\<close>

datatype error = HTTPException (status_code: int) (detail: string) | AttributeError

text \<open>
  A response is a Python dict, kept as the list of its items in the order the source
  writes them. \<^verbatim>\<open>JIsoformat t\<close> stands for the string \<^verbatim>\<open>t.isoformat()\<close>.
\<close>

datatype json =
    JStr string
  | JInt int
  | JBool bool
  | JNone
  | JIsoformat datetime
  | JDict "(string \<times> json) list"

type_synonym dict = "(string \<times> json) list"

section \<open>Storage access\<close>

text \<open>
  \<^verbatim>\<open>db.query(T).filter(p).first()\<close> is \<^term>\<open>find p\<close> on the table: the first row
  that satisfies the filter, or \<^verbatim>\<open>None\<close>. Assigning to attributes of the object
  found and committing rewrites that row in place.
\<close>

fun update_first :: "('a \<Rightarrow> bool) \<Rightarrow> ('a \<Rightarrow> 'a) \<Rightarrow> 'a list \<Rightarrow> 'a list" where
  "update_first p f [] = []"
| "update_first p f (x # xs) = (if p x then f x # xs else x # update_first p f xs)"

text \<open>Modelled from the spec: the primary key the storage layer gives a new
  \<^verbatim>\<open>Message\<close> row on \<^verbatim>\<open>db.add\<close> and \<^verbatim>\<open>db.commit\<close>, one more than
  the largest key in the table.\<close>

definition next_id :: "Message list \<Rightarrow> int" where
  "next_id ms = foldr max (map Message.id ms) 0 + 1"

section \<open>admin\_backend: the services\<close>

text \<open>
  \<^verbatim>\<open>verify_password\<close>, \<^verbatim>\<open>create_access_token\<close> and
  \<^verbatim>\<open>get_current_user\<close> come from \<^verbatim>\<open>backend.shared.utils\<close> and are
  parameters; so is the clock read by \<^verbatim>\<open>datetime.utcnow()\<close>.
\<close>

definition AuthService_authenticate_dispatcher ::
  "(string \<Rightarrow> string \<Rightarrow> bool) \<Rightarrow> datetime \<Rightarrow> string \<Rightarrow> string \<Rightarrow> Session
    \<Rightarrow> (error + User) \<times> Session" where
  "AuthService_authenticate_dispatcher =
     (\<lambda>verify_password utcnow email password db.
      case find (\<lambda>u. User.email u = email) (users db) of
        None \<Rightarrow> (Inl (HTTPException 401 ''Invalid credentials''), db)
      | Some user \<Rightarrow>
          if \<not> verify_password password (User.password_hash user)
          then (Inl (HTTPException 401 ''Invalid credentials''), db)
          else if role_value (User.role user) \<noteq> ''dispatcher''
          then (Inl (HTTPException 403 ''Dispatcher access only''), db)
          else
            let user' = user\<lparr>User.updated_at := utcnow\<rparr>;
                db' = db\<lparr>users :=
                  update_first (\<lambda>u. User.email u = email) (\<lambda>u. user') (users db)\<rparr>
            in (Inr user', db'))"

definition AuthService_create_token :: "(string \<Rightarrow> string \<Rightarrow> string) \<Rightarrow> User \<Rightarrow> dict" where
  "AuthService_create_token create_access_token user =
     [(''access_token'',
         JStr (create_access_token (User.email user) (role_value (User.role user)))),
      (''token_type'', JStr ''bearer''),
      (''user'', JDict
         [(''id'', JInt (User.id user)),
          (''full_name'', JStr (User.full_name user)),
          (''email'', JStr (User.email user)),
          (''role'', JStr (role_value (User.role user)))])]"

definition ShipmentService_assign_driver ::
  "int \<Rightarrow> int \<Rightarrow> Session \<Rightarrow> (error + dict) \<times> Session" where
  "ShipmentService_assign_driver =
     (\<lambda>shipment_id driver_id db.
      let shipment = find (\<lambda>s. Shipment.id s = shipment_id) (shipments db);
          driver = find (\<lambda>d. Driver.id d = driver_id) (drivers db)
      in case shipment of
           None \<Rightarrow> (Inl (HTTPException 404 ''Shipment not found''), db)
         | Some s \<Rightarrow>
             (case driver of
                None \<Rightarrow> (Inl (HTTPException 404 ''Driver not found''), db)
              | Some d \<Rightarrow>
                  let s' = s\<lparr>Shipment.driver_id := Some (Driver.id d),
                             Shipment.status := ASSIGNED\<rparr>;
                      db' = db\<lparr>shipments :=
                        update_first (\<lambda>s. Shipment.id s = shipment_id) (\<lambda>s. s')
                          (shipments db)\<rparr>
                  in (Inr [(''message'', JStr ''Driver assigned''),
                           (''shipment_number'', JStr (Shipment.shipment_number s')),
                           (''driver'', JStr (Driver.full_name d)),
                           (''status'', JStr ''ASSIGNED'')], db')))"

definition ShipmentService_update_status ::
  "int \<Rightarrow> ShipmentStatus \<Rightarrow> Session \<Rightarrow> (error + dict) \<times> Session" where
  "ShipmentService_update_status =
     (\<lambda>shipment_id new_status db.
      case find (\<lambda>s. Shipment.id s = shipment_id) (shipments db) of
        None \<Rightarrow> (Inl (HTTPException 404 ''Shipment not found''), db)
      | Some s \<Rightarrow>
          let s' = s\<lparr>Shipment.status := new_status\<rparr>;
              db' = db\<lparr>shipments :=
                update_first (\<lambda>s. Shipment.id s = shipment_id) (\<lambda>s. s') (shipments db)\<rparr>
          in (Inr [(''message'', JStr ''Status updated''),
                   (''shipment_number'', JStr (Shipment.shipment_number s')),
                   (''new_status'', JStr (status_value new_status))], db'))"

text \<open>Modelled from the spec: the column defaults of a new \<^verbatim>\<open>Message\<close> row, which
  \<^verbatim>\<open>NotificationService.send_message\<close> does not pass: \<^verbatim>\<open>created_at\<close> is the
  current time and \<^verbatim>\<open>is_read\<close> is false.\<close>

definition NotificationService_send_message ::
  "datetime \<Rightarrow> User \<Rightarrow> int \<Rightarrow> string \<Rightarrow> int option \<Rightarrow> MessageType \<Rightarrow> Session
    \<Rightarrow> (error + dict) \<times> Session" where
  "NotificationService_send_message =
     (\<lambda>utcnow sender recipient_id message shipment_id message_type db.
      case find (\<lambda>u. User.id u = recipient_id) (users db) of
        None \<Rightarrow> (Inl (HTTPException 404 ''Recipient not found''), db)
      | Some recipient \<Rightarrow>
          let new_msg = \<lparr>Message.id = next_id (messages db),
                         Message.sender_id = User.id sender,
                         Message.recipient_id = recipient_id,
                         Message.shipment_id = shipment_id,
                         Message.content = message,
                         Message.message_type = message_type,
                         Message.created_at = utcnow,
                         Message.is_read = False\<rparr>;
              db' = db\<lparr>messages := messages db @ [new_msg]\<rparr>
          in (Inr [(''id'', JInt (Message.id new_msg)),
                   (''content'', JStr message),
                   (''sent_to'', JStr (User.full_name recipient)),
                   (''sent_to_role'', JStr (role_value (User.role recipient))),
                   (''shipment_id'', (case shipment_id of None \<Rightarrow> JNone | Some k \<Rightarrow> JInt k)),
                   (''sent_at'', JIsoformat (Message.created_at new_msg))], db'))"

text \<open>
  One item of the list comprehension of \<^verbatim>\<open>get_sent_messages\<close>.
  \<^verbatim>\<open>m.recipient\<close> and \<^verbatim>\<open>m.shipment\<close> are the rows the foreign keys point at;
  \<^verbatim>\<open>m.recipient.full_name\<close> raises when there is no such user, while a missing
  shipment is rendered as \<^verbatim>\<open>None\<close>.
\<close>

definition sent_message_item :: "Session \<Rightarrow> Message \<Rightarrow> error + dict" where
  "sent_message_item db m =
     (case find (\<lambda>u. User.id u = Message.recipient_id m) (users db) of
        None \<Rightarrow> Inl AttributeError
      | Some recipient \<Rightarrow>
          Inr [(''id'', JInt (Message.id m)),
               (''content'', JStr (Message.content m)),
               (''to'', JStr (User.full_name recipient)),
               (''to_role'', JStr (role_value (User.role recipient))),
               (''shipment_number'',
                  (case Message.shipment_id m of
                     None \<Rightarrow> JNone
                   | Some k \<Rightarrow>
                       (case find (\<lambda>s. Shipment.id s = k) (shipments db) of
                          None \<Rightarrow> JNone
                        | Some s \<Rightarrow> JStr (Shipment.shipment_number s)))),
               (''sent_at'', JIsoformat (Message.created_at m)),
               (''is_read'', JBool (Message.is_read m))])"

text \<open>A list comprehension whose body may raise: the first error ends it.\<close>

fun comprehension :: "('a \<Rightarrow> error + 'b) \<Rightarrow> 'a list \<Rightarrow> error + 'b list" where
  "comprehension f [] = Inr []"
| "comprehension f (x # xs) =
     (case f x of
        Inl e \<Rightarrow> Inl e
      | Inr y \<Rightarrow> (case comprehension f xs of Inl e \<Rightarrow> Inl e | Inr ys \<Rightarrow> Inr (y # ys)))"

definition NotificationService_get_sent_messages ::
  "User \<Rightarrow> Session \<Rightarrow> (error + dict list) \<times> Session" where
  "NotificationService_get_sent_messages dispatcher db =
     (let messages = filter (\<lambda>m. Message.sender_id m = User.id dispatcher) (messages db)
      in (comprehension (sent_message_item db) messages, db))"

section \<open>admin\_backend: the routes\<close>

definition get_current_dispatcher ::
  "(string \<Rightarrow> Session \<Rightarrow> error + User) \<Rightarrow> string \<Rightarrow> Session \<Rightarrow> error + User" where
  "get_current_dispatcher get_current_user token db =
     (case get_current_user token db of
        Inl e \<Rightarrow> Inl e
      | Inr user \<Rightarrow>
          if User.role user \<noteq> DISPATCHER
          then Inl (HTTPException 403 ''Dispatcher access required'')
          else Inr user)"

definition login ::
  "(string \<Rightarrow> string \<Rightarrow> bool) \<Rightarrow> (string \<Rightarrow> string \<Rightarrow> string) \<Rightarrow> datetime
    \<Rightarrow> string \<Rightarrow> string \<Rightarrow> Session \<Rightarrow> (error + dict) \<times> Session" where
  "login =
     (\<lambda>verify_password create_access_token utcnow email password db.
      case AuthService_authenticate_dispatcher verify_password utcnow email password db of
        (Inl e, db') \<Rightarrow> (Inl e, db')
      | (Inr user, db') \<Rightarrow> (Inr (AuthService_create_token create_access_token user), db'))"

text \<open>The request body \<^verbatim>\<open>MessageCreate\<close>; its \<^verbatim>\<open>message_type\<close> is
  \<^verbatim>\<open>Literal["to_customer", "to_driver"]\<close>.\<close>

datatype message_type_literal = to_customer | to_driver

record MessageCreate =
  recipient_id :: int
  message :: string
  shipment_id :: "int option"
  message_type :: message_type_literal

definition send_message ::
  "(string \<Rightarrow> Session \<Rightarrow> error + User) \<Rightarrow> datetime \<Rightarrow> string \<Rightarrow> MessageCreate \<Rightarrow> Session
    \<Rightarrow> (error + dict) \<times> Session" where
  "send_message get_current_user utcnow token payload db =
     (case get_current_dispatcher get_current_user token db of
        Inl e \<Rightarrow> (Inl e, db)
      | Inr current \<Rightarrow>
          let msg_type = (if MessageCreate.message_type payload = to_customer
                          then TO_CUSTOMER else TO_DRIVER)
          in NotificationService_send_message utcnow current
               (MessageCreate.recipient_id payload) (MessageCreate.message payload)
               (MessageCreate.shipment_id payload) msg_type db)"

section \<open>driver\_backend: the routes\<close>

definition dispatcher_login ::
  "(string \<Rightarrow> string \<Rightarrow> bool) \<Rightarrow> (string \<Rightarrow> string \<Rightarrow> string) \<Rightarrow> string \<Rightarrow> string
    \<Rightarrow> Session \<Rightarrow> (error + dict) \<times> Session" where
  "dispatcher_login =
     (\<lambda>verify_password create_access_token email password db.
      case find (\<lambda>u. User.email u = email) (users db) of
        None \<Rightarrow> (Inl (HTTPException 401 ''Invalid credentials''), db)
      | Some user \<Rightarrow>
          if \<not> verify_password password (User.password_hash user)
          then (Inl (HTTPException 401 ''Invalid credentials''), db)
          else if User.role user \<noteq> DISPATCHER
          then (Inl (HTTPException 403 ''Dispatcher access only''), db)
          else
            let token = create_access_token (User.email user) (role_value (User.role user))
            in (Inr [(''access_token'', JStr token),
                     (''token_type'', JStr ''bearer''),
                     (''user'', JDict
                        [(''id'', JInt (User.id user)),
                         (''email'', JStr (User.email user)),
                         (''full_name'', JStr (User.full_name user)),
                         (''role'', JStr (role_value (User.role user)))])], db))"

definition assign_driver :: "int \<Rightarrow> int \<Rightarrow> Session \<Rightarrow> (error + dict) \<times> Session" where
  "assign_driver =
     (\<lambda>shipment_id assignment_driver_id db.
      case find (\<lambda>s. Shipment.id s = shipment_id) (shipments db) of
        None \<Rightarrow> (Inl (HTTPException 404 ''Shipment not found''), db)
      | Some shipment \<Rightarrow>
          (case find (\<lambda>d. Driver.id d = assignment_driver_id) (drivers db) of
             None \<Rightarrow> (Inl (HTTPException 404 ''Driver not found''), db)
           | Some driver \<Rightarrow>
               let shipment' = shipment\<lparr>Shipment.driver_id := Some (Driver.id driver),
                                        Shipment.status := ASSIGNED\<rparr>;
                   db' = db\<lparr>shipments :=
                     update_first (\<lambda>s. Shipment.id s = shipment_id) (\<lambda>s. shipment')
                       (shipments db)\<rparr>
               in (Inr [(''message'', JStr ''Driver assigned successfully''),
                        (''shipment_number'', JStr (Shipment.shipment_number shipment')),
                        (''driver_id'', JInt (Driver.id driver)),
                        (''status'', JStr (status_value (Shipment.status shipment')))],
                   db')))"

definition update_shipment_status ::
  "int \<Rightarrow> ShipmentStatus \<Rightarrow> Session \<Rightarrow> (error + dict) \<times> Session" where
  "update_shipment_status =
     (\<lambda>shipment_id update_status db.
      case find (\<lambda>s. Shipment.id s = shipment_id) (shipments db) of
        None \<Rightarrow> (Inl (HTTPException 404 ''Shipment not found''), db)
      | Some shipment \<Rightarrow>
          let shipment' = shipment\<lparr>Shipment.status := update_status\<rparr>;
              db' = db\<lparr>shipments :=
                update_first (\<lambda>s. Shipment.id s = shipment_id) (\<lambda>s. shipment')
                  (shipments db)\<rparr>
          in (Inr [(''message'', JStr ''Shipment status updated successfully''),
                   (''shipment_number'', JStr (Shipment.shipment_number shipment')),
                   (''new_status'', JStr (status_value (Shipment.status shipment')))],
              db'))"

section \<open>Sequences of requests\<close>

text \<open>
  The state-changing requests of the two services. A state is reachable when a list of
  requests leads to it; \<^verbatim>\<open>verify_password\<close> and \<^verbatim>\<open>create_access_token\<close> are the
  same for all of them.
\<close>

datatype command =
    AdminLogin string string datetime
  | AdminAssignDriver int int
  | AdminUpdateStatus int ShipmentStatus
  | AdminSendMessage datetime User int string "int option" MessageType
  | DriverLogin string string
  | DriverAssignDriver int int
  | DriverUpdateStatus int ShipmentStatus

fun step ::
  "(string \<Rightarrow> string \<Rightarrow> bool) \<Rightarrow> (string \<Rightarrow> string \<Rightarrow> string) \<Rightarrow> command \<Rightarrow> Session
    \<Rightarrow> (error + dict) \<times> Session" where
  "step vp cat (AdminLogin e p t) db = login vp cat t e p db"
| "step vp cat (AdminAssignDriver sid did) db = ShipmentService_assign_driver sid did db"
| "step vp cat (AdminUpdateStatus sid st) db = ShipmentService_update_status sid st db"
| "step vp cat (AdminSendMessage t sender rid msg sid mt) db =
     NotificationService_send_message t sender rid msg sid mt db"
| "step vp cat (DriverLogin e p) db = dispatcher_login vp cat e p db"
| "step vp cat (DriverAssignDriver sid did) db = assign_driver sid did db"
| "step vp cat (DriverUpdateStatus sid st) db = update_shipment_status sid st db"

fun run ::
  "(string \<Rightarrow> string \<Rightarrow> bool) \<Rightarrow> (string \<Rightarrow> string \<Rightarrow> string) \<Rightarrow> command list \<Rightarrow> Session
    \<Rightarrow> Session" where
  "run vp cat [] db = db"
| "run vp cat (c # cs) db = run vp cat cs (snd (step vp cat c db))"

text \<open>How many requests of the list are messages sent by user \<open>uid\<close> that succeed.\<close>

fun is_send_by :: "int \<Rightarrow> command \<Rightarrow> bool" where
  "is_send_by uid (AdminSendMessage t sender rid msg sid mt) = (User.id sender = uid)"
| "is_send_by uid (AdminLogin e p t) = False"
| "is_send_by uid (AdminAssignDriver sid did) = False"
| "is_send_by uid (AdminUpdateStatus sid st) = False"
| "is_send_by uid (DriverLogin e p) = False"
| "is_send_by uid (DriverAssignDriver sid did) = False"
| "is_send_by uid (DriverUpdateStatus sid st) = False"

fun succeeded :: "(error + 'a) \<times> Session \<Rightarrow> bool" where
  "succeeded (Inr r, db) = True"
| "succeeded (Inl e, db) = False"

fun successful_sends ::
  "(string \<Rightarrow> string \<Rightarrow> bool) \<Rightarrow> (string \<Rightarrow> string \<Rightarrow> string) \<Rightarrow> int \<Rightarrow> command list
    \<Rightarrow> Session \<Rightarrow> nat" where
  "successful_sends vp cat uid [] db = 0"
| "successful_sends vp cat uid (c # cs) db =
     (if is_send_by uid c \<and> succeeded (step vp cat c db) then 1 else 0)
     + successful_sends vp cat uid cs (snd (step vp cat c db))"

section \<open>The assignment invariant\<close>

text \<open>The statuses "ASSIGNED or later".\<close>

fun assigned_or_later :: "ShipmentStatus \<Rightarrow> bool" where
  "assigned_or_later ASSIGNED = True"
| "assigned_or_later IN_TRANSIT = True"
| "assigned_or_later DELIVERED = True"
| "assigned_or_later PENDING = False"
| "assigned_or_later CANCELLED = False"

text \<open>The shipment's \<^verbatim>\<open>driver_id\<close> is non-null and is the id of a stored driver.\<close>

definition has_existing_driver :: "Session \<Rightarrow> Shipment \<Rightarrow> bool" where
  "has_existing_driver db s =
     (case Shipment.driver_id s of
        None \<Rightarrow> False
      | Some k \<Rightarrow> find (\<lambda>d. Driver.id d = k) (drivers db) \<noteq> None)"

definition assignment_invariant :: "Session \<Rightarrow> bool" where
  "assignment_invariant db =
     list_all (\<lambda>s. assigned_or_later (Shipment.status s) \<longrightarrow> has_existing_driver db s)
       (shipments db)"

text \<open>
  A status update keeps the invariant when it does not move a shipment without an
  existing driver to ASSIGNED or later.
\<close>

definition update_keeps_driver :: "Session \<Rightarrow> int \<Rightarrow> ShipmentStatus \<Rightarrow> bool" where
  "update_keeps_driver db sid st =
     (assigned_or_later st \<longrightarrow>
        (case find (\<lambda>s. Shipment.id s = sid) (shipments db) of
           None \<Rightarrow> True
         | Some s \<Rightarrow> has_existing_driver db s))"

fun guarded :: "Session \<Rightarrow> command \<Rightarrow> bool" where
  "guarded db (AdminUpdateStatus sid st) = update_keeps_driver db sid st"
| "guarded db (DriverUpdateStatus sid st) = update_keeps_driver db sid st"
| "guarded db (AdminLogin e p t) = True"
| "guarded db (AdminAssignDriver sid did) = True"
| "guarded db (AdminSendMessage t sender rid msg sid mt) = True"
| "guarded db (DriverLogin e p) = True"
| "guarded db (DriverAssignDriver sid did) = True"

fun guarded_run ::
  "(string \<Rightarrow> string \<Rightarrow> bool) \<Rightarrow> (string \<Rightarrow> string \<Rightarrow> string) \<Rightarrow> command list \<Rightarrow> Session
    \<Rightarrow> bool" where
  "guarded_run vp cat [] db = True"
| "guarded_run vp cat (c # cs) db =
     (guarded db c \<and> guarded_run vp cat cs (snd (step vp cat c db)))"

text \<open>Every stored message names a recipient that is a stored user.\<close>

definition recipients_exist :: "Session \<Rightarrow> bool" where
  "recipients_exist db =
     list_all (\<lambda>m. find (\<lambda>u. User.id u = Message.recipient_id m) (users db) \<noteq> None)
       (messages db)"

section \<open>The scenario of the testable properties\<close>

text \<open>
  Dispatcher 1, customer 5, driver 7 (with a user account of role driver) and the pending
  shipment SHP-001 without a driver.
\<close>

definition dispatcher_1 :: User where
  "dispatcher_1 =
     \<lparr>User.id = 1, User.email = ''dispatch@example.com'', User.password_hash = ''h:secret'',
      User.full_name = ''Dana'', User.phone = ''555-0001'', User.role = DISPATCHER,
      User.created_at = 10, User.updated_at = 10\<rparr>"

definition customer_5 :: User where
  "customer_5 =
     \<lparr>User.id = 5, User.email = ''carol@example.com'', User.password_hash = ''h:apple'',
      User.full_name = ''Carol'', User.phone = ''555-0005'', User.role = CUSTOMER,
      User.created_at = 20, User.updated_at = 20\<rparr>"

definition driver_user_8 :: User where
  "driver_user_8 =
     \<lparr>User.id = 8, User.email = ''dave@example.com'', User.password_hash = ''h:wheel'',
      User.full_name = ''Dave'', User.phone = ''555-0008'', User.role = DRIVER,
      User.created_at = 30, User.updated_at = 30\<rparr>"

definition driver_7 :: Driver where
  "driver_7 =
     \<lparr>Driver.id = 7, Driver.full_name = ''Dave'', Driver.phone = ''555-0008'',
      Driver.license_number = ''L-7'', Driver.user_id = Some 8\<rparr>"

definition SHP_001 :: Shipment where
  "SHP_001 =
     \<lparr>Shipment.id = 1, Shipment.shipment_number = ''SHP-001'',
      Shipment.pickup_location = ''Pune'', Shipment.delivery_location = ''Delhi'',
      Shipment.cargo_type = ''boxes'', Shipment.weight = 12, Shipment.dimensions = ''1x1x1'',
      Shipment.status = PENDING, Shipment.customer_id = Some 5, Shipment.driver_id = None,
      Shipment.created_at = 40, Shipment.updated_at = 40\<rparr>"

definition scenario :: Session where
  "scenario =
     \<lparr>users = [dispatcher_1, customer_5, driver_user_8], drivers = [driver_7],
      shipments = [SHP_001], messages = []\<rparr>"

text \<open>A password check and a token for the scenario.\<close>

definition plain_verify :: "string \<Rightarrow> string \<Rightarrow> bool" where
  "plain_verify password hash = (hash = ''h:'' @ password)"

definition plain_token :: "string \<Rightarrow> string \<Rightarrow> string" where
  "plain_token sub r = sub @ ''/'' @ r"

section \<open>Facts about the storage access\<close>

lemma find_update_first:
  "find p xs = Some x \<Longrightarrow> p (f x) \<Longrightarrow> find p (update_first p f xs) = Some (f x)"
  by (induction xs) (auto split: if_splits)

lemma update_first_const:
  "find p xs = Some x \<Longrightarrow> update_first p (\<lambda>y. g x) xs = update_first p g xs"
  by (induction xs) (auto split: if_splits)

lemma update_first_twice:
  "p y \<Longrightarrow> update_first p (\<lambda>x. y) (update_first p (\<lambda>x. y) xs) = update_first p (\<lambda>x. y) xs"
  by (induction xs) auto

lemma map_update_first:
  "(\<And>x. h (f x) = h x) \<Longrightarrow> map h (update_first p f xs) = map h xs"
  by (induction xs) auto

lemma filter_update_first:
  "(\<And>x. p x \<Longrightarrow> \<not> q x \<and> \<not> q (f x)) \<Longrightarrow> filter q (update_first p f xs) = filter q xs"
  by (induction xs) auto

lemma find_Some_holds: "find p xs = Some x \<Longrightarrow> p x \<and> x \<in> set xs"
  by (induction xs) (auto split: if_splits)

section \<open>Assigning a driver\<close>

text \<open>
  Claim C2. When the shipment id matches no shipment, or the driver id matches no driver,
  assigning a driver raises the HTTP error 404 in both services, and the stored state
  (all four tables) is the one before the call.
\<close>

theorem assign_driver_not_found:
  assumes "find (\<lambda>s. Shipment.id s = sid) (shipments db) = None
           \<or> find (\<lambda>d. Driver.id d = did) (drivers db) = None"
  shows "(\<exists>d. ShipmentService_assign_driver sid did db = (Inl (HTTPException 404 d), db))
       \<and> (\<exists>d. assign_driver sid did db = (Inl (HTTPException 404 d), db))"
  using assms
  by (auto simp: ShipmentService_assign_driver_def assign_driver_def split: option.splits)

theorem assign_driver_not_found_witness:
  "find (\<lambda>s. Shipment.id s = 999) (shipments scenario) = None
   \<and> ShipmentService_assign_driver 999 7 scenario
       = (Inl (HTTPException 404 ''Shipment not found''), scenario)
   \<and> assign_driver 999 7 scenario = (Inl (HTTPException 404 ''Shipment not found''), scenario)
   \<and> find (\<lambda>d. Driver.id d = 99) (drivers scenario) = None
   \<and> ShipmentService_assign_driver 1 99 scenario
       = (Inl (HTTPException 404 ''Driver not found''), scenario)
   \<and> assign_driver 1 99 scenario = (Inl (HTTPException 404 ''Driver not found''), scenario)"
proof -
  have h: "find (\<lambda>s. Shipment.id s = 999) (shipments scenario) = None"
    by (simp add: scenario_def SHP_001_def)
  have k: "find (\<lambda>d. Driver.id d = 99) (drivers scenario) = None"
    by (simp add: scenario_def driver_7_def)
  have s: "find (\<lambda>s. Shipment.id s = 1) (shipments scenario) = Some SHP_001"
    by (simp add: scenario_def SHP_001_def)
  from assign_driver_not_found [of 999 scenario 7] assign_driver_not_found [of 1 scenario 99] h k s
  show ?thesis
    by (simp add: ShipmentService_assign_driver_def assign_driver_def)
qed


text \<open>
  Claim C3. For an existing shipment and an existing driver, assigning the driver succeeds
  in both services whatever the shipment's status and driver were; afterwards the
  shipment has status ASSIGNED and that driver, and the same call made again succeeds
  and leaves the state as the first call left it.
\<close>

theorem assign_driver_assigns_idempotently:
  assumes "find (\<lambda>s. Shipment.id s = sid) (shipments db) = Some s"
      and "find (\<lambda>d. Driver.id d = did) (drivers db) = Some d"
  shows "(\<exists>r db'. ShipmentService_assign_driver sid did db = (Inr r, db')
            \<and> find (\<lambda>s. Shipment.id s = sid) (shipments db')
                = Some (s\<lparr>Shipment.driver_id := Some did, Shipment.status := ASSIGNED\<rparr>)
            \<and> ShipmentService_assign_driver sid did db' = (Inr r, db'))
       \<and> (\<exists>r db'. assign_driver sid did db = (Inr r, db')
            \<and> find (\<lambda>s. Shipment.id s = sid) (shipments db')
                = Some (s\<lparr>Shipment.driver_id := Some did, Shipment.status := ASSIGNED\<rparr>)
            \<and> assign_driver sid did db' = (Inr r, db'))"
proof -
  let ?p = "\<lambda>s. Shipment.id s = sid"
  let ?s' = "s\<lparr>Shipment.driver_id := Some did, Shipment.status := ASSIGNED\<rparr>"
  let ?db' = "db\<lparr>shipments := update_first ?p (\<lambda>x. ?s') (shipments db)\<rparr>"
  have ps: "?p s" using find_Some_holds [OF assms(1)] by simp
  have did: "Driver.id d = did" using find_Some_holds [OF assms(2)] by simp
  have ps': "?p ?s'" using ps by simp
  have found: "find ?p (shipments ?db') = Some ?s'"
    using find_update_first [OF assms(1), of "\<lambda>x. ?s'"] ps' by simp
  have again: "update_first ?p (\<lambda>x. ?s') (shipments ?db') = shipments ?db'"
    using update_first_twice [of ?p ?s' "shipments db"] ps' by simp
  have drv: "drivers ?db' = drivers db" by simp
  have a1: "ShipmentService_assign_driver sid did db
              = (Inr [(''message'', JStr ''Driver assigned''),
                      (''shipment_number'', JStr (Shipment.shipment_number s)),
                      (''driver'', JStr (Driver.full_name d)),
                      (''status'', JStr ''ASSIGNED'')], ?db')"
    using assms did by (simp add: ShipmentService_assign_driver_def)
  have a2: "ShipmentService_assign_driver sid did ?db'
              = (Inr [(''message'', JStr ''Driver assigned''),
                      (''shipment_number'', JStr (Shipment.shipment_number s)),
                      (''driver'', JStr (Driver.full_name d)),
                      (''status'', JStr ''ASSIGNED'')], ?db')"
    unfolding ShipmentService_assign_driver_def using found assms(2) did again
    by (simp add: Let_def)
  have b1: "assign_driver sid did db
              = (Inr [(''message'', JStr ''Driver assigned successfully''),
                      (''shipment_number'', JStr (Shipment.shipment_number s)),
                      (''driver_id'', JInt did),
                      (''status'', JStr ''ASSIGNED'')], ?db')"
    using assms did by (simp add: assign_driver_def)
  have b2: "assign_driver sid did ?db'
              = (Inr [(''message'', JStr ''Driver assigned successfully''),
                      (''shipment_number'', JStr (Shipment.shipment_number s)),
                      (''driver_id'', JInt did),
                      (''status'', JStr ''ASSIGNED'')], ?db')"
    unfolding assign_driver_def using found assms(2) did again
    by (simp add: Let_def)
  show ?thesis using a1 a2 b1 b2 found by simp
qed

theorem assign_driver_assigns_idempotently_witness:
  "find (\<lambda>s. Shipment.id s = 1) (shipments scenario) = Some SHP_001
   \<and> find (\<lambda>d. Driver.id d = 7) (drivers scenario) = Some driver_7
   \<and> (\<exists>r db'. ShipmentService_assign_driver 1 7 scenario = (Inr r, db')
         \<and> find (\<lambda>s. Shipment.id s = 1) (shipments db')
             = Some (SHP_001\<lparr>Shipment.driver_id := Some 7, Shipment.status := ASSIGNED\<rparr>)
         \<and> ShipmentService_assign_driver 1 7 db' = (Inr r, db'))
   \<and> (\<exists>r db'. assign_driver 1 7 scenario = (Inr r, db')
         \<and> find (\<lambda>s. Shipment.id s = 1) (shipments db')
             = Some (SHP_001\<lparr>Shipment.driver_id := Some 7, Shipment.status := ASSIGNED\<rparr>)
         \<and> assign_driver 1 7 db' = (Inr r, db'))"
proof -
  have h1: "find (\<lambda>s. Shipment.id s = 1) (shipments scenario) = Some SHP_001"
    by (simp add: scenario_def SHP_001_def)
  have h2: "find (\<lambda>d. Driver.id d = 7) (drivers scenario) = Some driver_7"
    by (simp add: scenario_def driver_7_def)
  from assign_driver_assigns_idempotently [OF h1 h2] h1 h2 show ?thesis by blast
qed

section \<open>Changing the status\<close>

text \<open>
  Claim C7. For an existing shipment, a status update (in both services) changes only the
  status field of that shipment: the users, drivers and messages are as before; every
  shipment row keeps all its other fields, among them driver_id and shipment_number;
  the rows of other shipments are unchanged; and the shipment now has the new status.
\<close>

theorem update_status_changes_only_status:
  assumes "find (\<lambda>s. Shipment.id s = sid) (shipments db) = Some s"
  shows "(\<exists>r db'. ShipmentService_update_status sid st db = (Inr r, db')
            \<and> users db' = users db \<and> drivers db' = drivers db \<and> messages db' = messages db
            \<and> map (\<lambda>x. x\<lparr>Shipment.status := v\<rparr>) (shipments db')
                = map (\<lambda>x. x\<lparr>Shipment.status := v\<rparr>) (shipments db)
            \<and> filter (\<lambda>x. Shipment.id x \<noteq> sid) (shipments db')
                = filter (\<lambda>x. Shipment.id x \<noteq> sid) (shipments db)
            \<and> find (\<lambda>s. Shipment.id s = sid) (shipments db')
                = Some (s\<lparr>Shipment.status := st\<rparr>))
       \<and> (\<exists>r db'. update_shipment_status sid st db = (Inr r, db')
            \<and> users db' = users db \<and> drivers db' = drivers db \<and> messages db' = messages db
            \<and> map (\<lambda>x. x\<lparr>Shipment.status := v\<rparr>) (shipments db')
                = map (\<lambda>x. x\<lparr>Shipment.status := v\<rparr>) (shipments db)
            \<and> filter (\<lambda>x. Shipment.id x \<noteq> sid) (shipments db')
                = filter (\<lambda>x. Shipment.id x \<noteq> sid) (shipments db)
            \<and> find (\<lambda>s. Shipment.id s = sid) (shipments db')
                = Some (s\<lparr>Shipment.status := st\<rparr>))"
proof -
  let ?p = "\<lambda>s. Shipment.id s = sid"
  let ?g = "\<lambda>x. x\<lparr>Shipment.status := st\<rparr>"
  let ?rows = "update_first ?p ?g (shipments db)"
  have const: "update_first ?p (\<lambda>x. ?g s) (shipments db) = ?rows"
    by (rule update_first_const [OF assms])
  have erased: "map (\<lambda>x. x\<lparr>Shipment.status := v\<rparr>) ?rows
                  = map (\<lambda>x. x\<lparr>Shipment.status := v\<rparr>) (shipments db)"
    by (rule map_update_first) simp
  have others: "filter (\<lambda>x. Shipment.id x \<noteq> sid) ?rows
                  = filter (\<lambda>x. Shipment.id x \<noteq> sid) (shipments db)"
    by (rule filter_update_first) simp
  have ps: "?p s" using find_Some_holds [OF assms] by simp
  have found: "find ?p ?rows = Some (?g s)"
    using find_update_first [OF assms, of ?g] ps by simp
  have a: "ShipmentService_update_status sid st db
             = (Inr [(''message'', JStr ''Status updated''),
                     (''shipment_number'', JStr (Shipment.shipment_number s)),
                     (''new_status'', JStr (status_value st))],
                db\<lparr>shipments := ?rows\<rparr>)"
    using assms const by (simp add: ShipmentService_update_status_def)
  have b: "update_shipment_status sid st db
             = (Inr [(''message'', JStr ''Shipment status updated successfully''),
                     (''shipment_number'', JStr (Shipment.shipment_number s)),
                     (''new_status'', JStr (status_value st))],
                db\<lparr>shipments := ?rows\<rparr>)"
    using assms const by (simp add: update_shipment_status_def)
  show ?thesis using a b erased others found by simp
qed

theorem update_status_changes_only_status_witness:
  "find (\<lambda>s. Shipment.id s = 1) (shipments scenario) = Some SHP_001
   \<and> (\<exists>r db'. ShipmentService_update_status 1 CANCELLED scenario = (Inr r, db')
         \<and> users db' = users scenario \<and> drivers db' = drivers scenario
         \<and> messages db' = messages scenario
         \<and> map (\<lambda>x. x\<lparr>Shipment.status := PENDING\<rparr>) (shipments db')
             = map (\<lambda>x. x\<lparr>Shipment.status := PENDING\<rparr>) (shipments scenario)
         \<and> filter (\<lambda>x. Shipment.id x \<noteq> 1) (shipments db')
             = filter (\<lambda>x. Shipment.id x \<noteq> 1) (shipments scenario)
         \<and> find (\<lambda>s. Shipment.id s = 1) (shipments db')
             = Some (SHP_001\<lparr>Shipment.status := CANCELLED\<rparr>))
   \<and> (\<exists>r db'. update_shipment_status 1 CANCELLED scenario = (Inr r, db')
         \<and> users db' = users scenario \<and> drivers db' = drivers scenario
         \<and> messages db' = messages scenario
         \<and> map (\<lambda>x. x\<lparr>Shipment.status := PENDING\<rparr>) (shipments db')
             = map (\<lambda>x. x\<lparr>Shipment.status := PENDING\<rparr>) (shipments scenario)
         \<and> filter (\<lambda>x. Shipment.id x \<noteq> 1) (shipments db')
             = filter (\<lambda>x. Shipment.id x \<noteq> 1) (shipments scenario)
         \<and> find (\<lambda>s. Shipment.id s = 1) (shipments db')
             = Some (SHP_001\<lparr>Shipment.status := CANCELLED\<rparr>))"
proof -
  have h: "find (\<lambda>s. Shipment.id s = 1) (shipments scenario) = Some SHP_001"
    by (simp add: scenario_def SHP_001_def)
  from update_status_changes_only_status [OF h, of CANCELLED PENDING] h
  show ?thesis by blast
qed

section \<open>Logging in\<close>

text \<open>
  Claim C5. A login with an email that matches no user and a login with the email of a
  user but a wrong password raise the same error, HTTP 401 with the detail "Invalid
  credentials", in the service and route of admin_backend and in the route of
  driver_backend, and neither changes the state.
\<close>

theorem login_failures_indistinguishable:
  assumes "find (\<lambda>u. User.email u = ea) (users dba) = None"
      and "find (\<lambda>u. User.email u = eb) (users dbb) = Some u"
      and "\<not> vp pb (User.password_hash u)"
  shows "AuthService_authenticate_dispatcher vp ta ea pa dba
           = (Inl (HTTPException 401 ''Invalid credentials''), dba)
       \<and> AuthService_authenticate_dispatcher vp tb eb pb dbb
           = (Inl (HTTPException 401 ''Invalid credentials''), dbb)
       \<and> login vp cat ta ea pa dba = (Inl (HTTPException 401 ''Invalid credentials''), dba)
       \<and> login vp cat tb eb pb dbb = (Inl (HTTPException 401 ''Invalid credentials''), dbb)
       \<and> dispatcher_login vp cat ea pa dba
           = (Inl (HTTPException 401 ''Invalid credentials''), dba)
       \<and> dispatcher_login vp cat eb pb dbb
           = (Inl (HTTPException 401 ''Invalid credentials''), dbb)"
  using assms
  by (simp add: AuthService_authenticate_dispatcher_def login_def dispatcher_login_def)

theorem login_failures_indistinguishable_witness:
  "find (\<lambda>u. User.email u = ''nobody@example.com'') (users scenario) = None
   \<and> find (\<lambda>u. User.email u = ''dispatch@example.com'') (users scenario) = Some dispatcher_1
   \<and> \<not> plain_verify ''guess'' (User.password_hash dispatcher_1)
   \<and> fst (login plain_verify plain_token 50 ''nobody@example.com'' ''secret'' scenario)
       = fst (login plain_verify plain_token 60 ''dispatch@example.com'' ''guess'' scenario)
   \<and> fst (dispatcher_login plain_verify plain_token ''nobody@example.com'' ''secret'' scenario)
       = fst (dispatcher_login plain_verify plain_token ''dispatch@example.com'' ''guess''
                scenario)"
proof -
  have h1: "find (\<lambda>u. User.email u = ''nobody@example.com'') (users scenario) = None"
    by (simp add: scenario_def dispatcher_1_def customer_5_def driver_user_8_def)
  have h2: "find (\<lambda>u. User.email u = ''dispatch@example.com'') (users scenario)
              = Some dispatcher_1"
    by (simp add: scenario_def dispatcher_1_def)
  have h3: "\<not> plain_verify ''guess'' (User.password_hash dispatcher_1)"
    by (simp add: plain_verify_def dispatcher_1_def)
  from login_failures_indistinguishable
         [where vp = plain_verify and pb = "''guess''" and u = dispatcher_1
            and ea = "''nobody@example.com''" and eb = "''dispatch@example.com''"
            and dba = scenario and dbb = scenario
            and ta = 50 and pa = "''secret''" and tb = 60 and cat = plain_token, OF h1 h2 h3]
       h1 h2 h3
  show ?thesis by simp
qed

text \<open>
  Claim C10. The role check comes after the password check. A login with the email of an
  existing account and a wrong password raises 401 whatever the account's role is; when
  403 is raised, the email matched a user whose password was verified and whose role is
  not dispatcher, and the state, the user's updated_at included, is as before. This
  holds for the service of admin_backend and the route of driver_backend.
\<close>

theorem role_check_after_password_check:
  "(find (\<lambda>u. User.email u = e) (users db) = Some u \<and> \<not> vp p (User.password_hash u)
      \<longrightarrow> fst (AuthService_authenticate_dispatcher vp t e p db)
            = Inl (HTTPException 401 ''Invalid credentials'')
        \<and> fst (dispatcher_login vp cat e p db) = Inl (HTTPException 401 ''Invalid credentials''))
   \<and> (fst (AuthService_authenticate_dispatcher vp t e p db) = Inl (HTTPException 403 d)
      \<longrightarrow> (\<exists>w. find (\<lambda>u. User.email u = e) (users db) = Some w
                \<and> vp p (User.password_hash w) \<and> User.role w \<noteq> DISPATCHER)
        \<and> snd (AuthService_authenticate_dispatcher vp t e p db) = db)
   \<and> (fst (dispatcher_login vp cat e p db) = Inl (HTTPException 403 d)
      \<longrightarrow> (\<exists>w. find (\<lambda>u. User.email u = e) (users db) = Some w
                \<and> vp p (User.password_hash w) \<and> User.role w \<noteq> DISPATCHER)
        \<and> snd (dispatcher_login vp cat e p db) = db)"
proof (intro conjI impI)
  assume "find (\<lambda>u. User.email u = e) (users db) = Some u \<and> \<not> vp p (User.password_hash u)"
  then show "fst (AuthService_authenticate_dispatcher vp t e p db)
               = Inl (HTTPException 401 ''Invalid credentials'')"
    by (simp add: AuthService_authenticate_dispatcher_def)
next
  assume "find (\<lambda>u. User.email u = e) (users db) = Some u \<and> \<not> vp p (User.password_hash u)"
  then show "fst (dispatcher_login vp cat e p db) = Inl (HTTPException 401 ''Invalid credentials'')"
    by (simp add: dispatcher_login_def)
next
  assume a: "fst (AuthService_authenticate_dispatcher vp t e p db) = Inl (HTTPException 403 d)"
  then show "\<exists>w. find (\<lambda>u. User.email u = e) (users db) = Some w
                \<and> vp p (User.password_hash w) \<and> User.role w \<noteq> DISPATCHER"
    by (auto simp: AuthService_authenticate_dispatcher_def Let_def
             split: option.splits if_splits)
  from a show "snd (AuthService_authenticate_dispatcher vp t e p db) = db"
    by (auto simp: AuthService_authenticate_dispatcher_def Let_def
             split: option.splits if_splits)
next
  assume a: "fst (dispatcher_login vp cat e p db) = Inl (HTTPException 403 d)"
  then show "\<exists>w. find (\<lambda>u. User.email u = e) (users db) = Some w
                \<and> vp p (User.password_hash w) \<and> User.role w \<noteq> DISPATCHER"
    by (auto simp: dispatcher_login_def Let_def split: option.splits if_splits)
  from a show "snd (dispatcher_login vp cat e p db) = db"
    by (auto simp: dispatcher_login_def Let_def split: option.splits if_splits)
qed

theorem role_check_after_password_check_witness:
  "find (\<lambda>u. User.email u = ''carol@example.com'') (users scenario) = Some customer_5
   \<and> \<not> plain_verify ''guess'' (User.password_hash customer_5)
   \<and> fst (AuthService_authenticate_dispatcher plain_verify 50 ''carol@example.com'' ''guess''
            scenario) = Inl (HTTPException 401 ''Invalid credentials'')
   \<and> fst (dispatcher_login plain_verify plain_token ''carol@example.com'' ''guess'' scenario)
       = Inl (HTTPException 401 ''Invalid credentials'')
   \<and> fst (AuthService_authenticate_dispatcher plain_verify 50 ''carol@example.com'' ''apple''
            scenario) = Inl (HTTPException 403 ''Dispatcher access only'')
   \<and> plain_verify ''apple'' (User.password_hash customer_5)
   \<and> User.role customer_5 \<noteq> DISPATCHER
   \<and> snd (AuthService_authenticate_dispatcher plain_verify 50 ''carol@example.com'' ''apple''
            scenario) = scenario
   \<and> fst (dispatcher_login plain_verify plain_token ''carol@example.com'' ''apple'' scenario)
       = Inl (HTTPException 403 ''Dispatcher access only'')
   \<and> snd (dispatcher_login plain_verify plain_token ''carol@example.com'' ''apple'' scenario)
       = scenario"
proof -
  have h1: "find (\<lambda>u. User.email u = ''carol@example.com'') (users scenario) = Some customer_5"
    by (simp add: scenario_def dispatcher_1_def customer_5_def)
  have h2: "\<not> plain_verify ''guess'' (User.password_hash customer_5)"
    by (simp add: plain_verify_def customer_5_def)
  have h3: "plain_verify ''apple'' (User.password_hash customer_5)"
    by (simp add: plain_verify_def customer_5_def)
  have h4: "User.role customer_5 \<noteq> DISPATCHER"
    by (simp add: customer_5_def)
  have h5: "fst (AuthService_authenticate_dispatcher plain_verify 50 ''carol@example.com''
              ''apple'' scenario) = Inl (HTTPException 403 ''Dispatcher access only'')"
    using h1 h3 h4 by (simp add: AuthService_authenticate_dispatcher_def customer_5_def)
  have h6: "fst (dispatcher_login plain_verify plain_token ''carol@example.com'' ''apple''
              scenario) = Inl (HTTPException 403 ''Dispatcher access only'')"
    using h1 h3 h4 by (simp add: dispatcher_login_def)
  note a = role_check_after_password_check
    [where e = "''carol@example.com''" and db = scenario and u = customer_5
       and vp = plain_verify and p = "''guess''" and t = 50 and cat = plain_token]
  note b = role_check_after_password_check
    [where e = "''carol@example.com''" and db = scenario and u = customer_5
       and vp = plain_verify and p = "''apple''" and t = 50 and cat = plain_token
       and d = "''Dispatcher access only''"]
  from a b h1 h2 h3 h4 h5 h6 show ?thesis by simp
qed

section \<open>Sending a message\<close>

lemma send_message_result:
  assumes "find (\<lambda>u. User.id u = rid) (users db) = Some r"
  shows "NotificationService_send_message t sender rid msg sid mt db
           = (Inr [(''id'', JInt (next_id (messages db))),
                   (''content'', JStr msg),
                   (''sent_to'', JStr (User.full_name r)),
                   (''sent_to_role'', JStr (role_value (User.role r))),
                   (''shipment_id'', (case sid of None \<Rightarrow> JNone | Some k \<Rightarrow> JInt k)),
                   (''sent_at'', JIsoformat t)],
              db\<lparr>messages := messages db @
                 [\<lparr>Message.id = next_id (messages db), Message.sender_id = User.id sender,
                   Message.recipient_id = rid, Message.shipment_id = sid,
                   Message.content = msg, Message.message_type = mt,
                   Message.created_at = t, Message.is_read = False\<rparr>]\<rparr>)"
  using assms by (simp add: NotificationService_send_message_def)

text \<open>
  Claim C8. Sending to an existing recipient succeeds and records the message also when
  the given shipment id matches no shipment: the id is not looked up, and the stored
  message and the receipt carry it as given.
\<close>

theorem send_message_unknown_shipment:
  assumes "find (\<lambda>u. User.id u = rid) (users db) = Some r"
      and "find (\<lambda>s. Shipment.id s = k) (shipments db) = None"
  shows "\<exists>receipt m. NotificationService_send_message t sender rid msg (Some k) mt db
                        = (Inr receipt, db\<lparr>messages := messages db @ [m]\<rparr>)
           \<and> Message.shipment_id m = Some k
           \<and> Message.sender_id m = User.id sender \<and> Message.recipient_id m = rid
           \<and> Message.content m = msg
           \<and> map_of receipt ''shipment_id'' = Some (JInt k)"
proof -
  let ?m = "\<lparr>Message.id = next_id (messages db), Message.sender_id = User.id sender,
             Message.recipient_id = rid, Message.shipment_id = Some k,
             Message.content = msg, Message.message_type = mt,
             Message.created_at = t, Message.is_read = False\<rparr>"
  let ?receipt = "[(''id'', JInt (next_id (messages db))), (''content'', JStr msg),
                   (''sent_to'', JStr (User.full_name r)),
                   (''sent_to_role'', JStr (role_value (User.role r))),
                   (''shipment_id'', JInt k), (''sent_at'', JIsoformat t)]"
  show ?thesis
    by (rule exI [of _ ?receipt], rule exI [of _ ?m])
       (simp add: send_message_result [OF assms(1), of t sender msg "Some k" mt])
qed

theorem send_message_unknown_shipment_witness:
  "find (\<lambda>u. User.id u = 5) (users scenario) = Some customer_5
   \<and> find (\<lambda>s. Shipment.id s = 404) (shipments scenario) = None
   \<and> (\<exists>receipt m. NotificationService_send_message 50 dispatcher_1 5 ''Delayed'' (Some 404)
                      TO_CUSTOMER scenario
                    = (Inr receipt, scenario\<lparr>messages := messages scenario @ [m]\<rparr>)
         \<and> Message.shipment_id m = Some 404
         \<and> Message.sender_id m = User.id dispatcher_1 \<and> Message.recipient_id m = 5
         \<and> Message.content m = ''Delayed''
         \<and> map_of receipt ''shipment_id'' = Some (JInt 404))"
proof -
  have h1: "find (\<lambda>u. User.id u = 5) (users scenario) = Some customer_5"
    by (simp add: scenario_def dispatcher_1_def customer_5_def)
  have h2: "find (\<lambda>s. Shipment.id s = 404) (shipments scenario) = None"
    by (simp add: scenario_def SHP_001_def)
  from send_message_unknown_shipment [OF h1 h2] h1 h2 show ?thesis by blast
qed

text \<open>
  Claim C9. Sending does not compare the message type with the recipient's role: for a
  recipient of any role and either message type the message is recorded with the type
  given, and the receipt's sent_to_role is the role stored for the recipient. The route
  passes TO_CUSTOMER for "to_customer" and TO_DRIVER otherwise, with no look at the
  recipient.
\<close>

theorem send_message_type_not_checked:
  "(find (\<lambda>u. User.id u = rid) (users db) = Some r
      \<longrightarrow> (\<exists>receipt m. NotificationService_send_message t sender rid msg sid mt db
                          = (Inr receipt, db\<lparr>messages := messages db @ [m]\<rparr>)
             \<and> Message.message_type m = mt \<and> Message.recipient_id m = rid
             \<and> map_of receipt ''sent_to_role'' = Some (JStr (role_value (User.role r)))))
   \<and> (get_current_dispatcher gcu token db = Inr current
      \<longrightarrow> send_message gcu t token payload db
            = NotificationService_send_message t current (MessageCreate.recipient_id payload)
                (MessageCreate.message payload) (MessageCreate.shipment_id payload)
                (case MessageCreate.message_type payload of
                   to_customer \<Rightarrow> TO_CUSTOMER | to_driver \<Rightarrow> TO_DRIVER) db)"
proof (intro conjI impI)
  let ?m = "\<lparr>Message.id = next_id (messages db), Message.sender_id = User.id sender,
             Message.recipient_id = rid, Message.shipment_id = sid,
             Message.content = msg, Message.message_type = mt,
             Message.created_at = t, Message.is_read = False\<rparr>"
  let ?receipt = "[(''id'', JInt (next_id (messages db))), (''content'', JStr msg),
                   (''sent_to'', JStr (User.full_name r)),
                   (''sent_to_role'', JStr (role_value (User.role r))),
                   (''shipment_id'', (case sid of None \<Rightarrow> JNone | Some k \<Rightarrow> JInt k)),
                   (''sent_at'', JIsoformat t)]"
  assume found: "find (\<lambda>u. User.id u = rid) (users db) = Some r"
  show "\<exists>receipt m. NotificationService_send_message t sender rid msg sid mt db
                          = (Inr receipt, db\<lparr>messages := messages db @ [m]\<rparr>)
             \<and> Message.message_type m = mt \<and> Message.recipient_id m = rid
             \<and> map_of receipt ''sent_to_role'' = Some (JStr (role_value (User.role r)))"
    by (rule exI [of _ ?receipt], rule exI [of _ ?m])
       (simp add: send_message_result [OF found, of t sender msg sid mt])
next
  assume "get_current_dispatcher gcu token db = Inr current"
  then show "send_message gcu t token payload db
            = NotificationService_send_message t current (MessageCreate.recipient_id payload)
                (MessageCreate.message payload) (MessageCreate.shipment_id payload)
                (case MessageCreate.message_type payload of
                   to_customer \<Rightarrow> TO_CUSTOMER | to_driver \<Rightarrow> TO_DRIVER) db"
    by (cases "MessageCreate.message_type payload") (simp_all add: send_message_def)
qed


theorem send_message_type_not_checked_witness:
  "find (\<lambda>u. User.id u = 8) (users scenario) = Some driver_user_8
   \<and> (\<exists>receipt m. NotificationService_send_message 50 dispatcher_1 8 ''Hello'' None
                      TO_CUSTOMER scenario
                    = (Inr receipt, scenario\<lparr>messages := messages scenario @ [m]\<rparr>)
         \<and> Message.message_type m = TO_CUSTOMER \<and> Message.recipient_id m = 8
         \<and> map_of receipt ''sent_to_role'' = Some (JStr ''driver''))
   \<and> get_current_dispatcher (\<lambda>token db. Inr dispatcher_1) ''token'' scenario = Inr dispatcher_1
   \<and> send_message (\<lambda>token db. Inr dispatcher_1) 50 ''token''
        \<lparr>MessageCreate.recipient_id = 8, MessageCreate.message = ''Hello'',
         MessageCreate.shipment_id = None, MessageCreate.message_type = to_customer\<rparr> scenario
       = NotificationService_send_message 50 dispatcher_1 8 ''Hello'' None TO_CUSTOMER scenario"
proof -
  have h1: "find (\<lambda>u. User.id u = 8) (users scenario) = Some driver_user_8"
    by (simp add: scenario_def dispatcher_1_def customer_5_def driver_user_8_def)
  have h2: "get_current_dispatcher (\<lambda>token db. Inr dispatcher_1) ''token'' scenario
              = Inr dispatcher_1"
    by (simp add: get_current_dispatcher_def dispatcher_1_def)
  have h3: "role_value (User.role driver_user_8) = ''driver''"
    by (simp add: driver_user_8_def)
  note a = send_message_type_not_checked
    [where rid = 8 and db = scenario and r = driver_user_8 and t = 50
       and sender = dispatcher_1 and msg = "''Hello''" and sid = None and mt = TO_CUSTOMER
       and gcu = "\<lambda>token db. Inr dispatcher_1" and token = "''token''"
       and current = dispatcher_1
       and payload = "\<lparr>MessageCreate.recipient_id = 8, MessageCreate.message = ''Hello'',
         MessageCreate.shipment_id = None, MessageCreate.message_type = to_customer\<rparr>"]
  from a h1 h2 h3 show ?thesis by simp
qed

text \<open>
  On a successful login the service of admin_backend stores the current time in the
  user's updated_at and returns the user so updated.
\<close>

lemma authenticate_dispatcher_refreshes:
  assumes "find (\<lambda>u. User.email u = e) (users db) = Some u"
      and "vp p (User.password_hash u)"
      and "User.role u = DISPATCHER"
  shows "\<exists>db'. AuthService_authenticate_dispatcher vp t e p db
                  = (Inr (u\<lparr>User.updated_at := t\<rparr>), db')
           \<and> find (\<lambda>u. User.email u = e) (users db') = Some (u\<lparr>User.updated_at := t\<rparr>)"
proof -
  have pe: "User.email u = e" using find_Some_holds [OF assms(1)] by simp
  have "find (\<lambda>u. User.email u = e)
          (update_first (\<lambda>u. User.email u = e) (\<lambda>x. u\<lparr>User.updated_at := t\<rparr>) (users db))
        = Some (u\<lparr>User.updated_at := t\<rparr>)"
    using find_update_first [OF assms(1), of "\<lambda>x. u\<lparr>User.updated_at := t\<rparr>"] pe by simp
  then show ?thesis
    using assms by (simp add: AuthService_authenticate_dispatcher_def Let_def)
qed

text \<open>The login route of driver_backend writes nothing on any path.\<close>

lemma dispatcher_login_state: "snd (dispatcher_login vp cat e p db) = db"
  by (simp add: dispatcher_login_def Let_def split: option.splits)

text \<open>
  Claim C4. A successful login refreshes the user's updated_at in both services. The
  route of driver_backend does not: the dispatcher of the scenario logs in at a later
  time with the right password, gets the token, and the state, with updated_at still 10,
  is the one before the call.
\<close>

theorem dispatcher_login_no_refresh:
  "dispatcher_login plain_verify plain_token ''dispatch@example.com'' ''secret'' scenario
     = (Inr [(''access_token'', JStr ''dispatch@example.com/dispatcher''),
             (''token_type'', JStr ''bearer''),
             (''user'', JDict [(''id'', JInt 1), (''email'', JStr ''dispatch@example.com''),
                               (''full_name'', JStr ''Dana''),
                               (''role'', JStr ''dispatcher'')])],
        scenario)
   \<and> map User.updated_at (users scenario) = [10, 20, 30]
   \<and> map User.updated_at
        (users (snd (login plain_verify plain_token 50 ''dispatch@example.com'' ''secret''
                       scenario))) = [50, 20, 30]"
  by (simp add: dispatcher_login_def login_def AuthService_authenticate_dispatcher_def
        scenario_def dispatcher_1_def customer_5_def driver_user_8_def
        plain_verify_def plain_token_def Let_def)

section \<open>Reachable states\<close>

lemma list_all_update_first:
  "list_all P xs \<Longrightarrow> (\<And>x. x \<in> set xs \<Longrightarrow> p x \<Longrightarrow> P (f x)) \<Longrightarrow> list_all P (update_first p f xs)"
  by (induction xs) auto

lemma has_existing_driver_cong:
  "drivers db' = drivers db \<Longrightarrow> has_existing_driver db' s = has_existing_driver db s"
  by (simp add: has_existing_driver_def split: option.splits)

lemma has_existing_driver_shipments:
  "has_existing_driver (db\<lparr>shipments := xs\<rparr>) s = has_existing_driver db s"
  by (simp add: has_existing_driver_def split: option.splits)

lemma assignment_invariant_cong:
  "drivers db' = drivers db \<Longrightarrow> shipments db' = shipments db
     \<Longrightarrow> assignment_invariant db' = assignment_invariant db"
  by (simp add: assignment_invariant_def has_existing_driver_cong [of db' db])

lemma login_frame:
  "drivers (snd (login vp cat t e p db)) = drivers db
   \<and> shipments (snd (login vp cat t e p db)) = shipments db
   \<and> messages (snd (login vp cat t e p db)) = messages db
   \<and> map User.id (users (snd (login vp cat t e p db))) = map User.id (users db)"
proof (cases "find (\<lambda>u. User.email u = e) (users db)")
  case None
  then show ?thesis by (simp add: login_def AuthService_authenticate_dispatcher_def)
next
  case (Some u)
  have "map User.id (update_first (\<lambda>u. User.email u = e) (\<lambda>x. x\<lparr>User.updated_at := t\<rparr>) (users db))
          = map User.id (users db)"
    by (rule map_update_first) simp
  then show ?thesis
    using Some update_first_const [OF Some, of "\<lambda>x. x\<lparr>User.updated_at := t\<rparr>"]
    by (simp add: login_def AuthService_authenticate_dispatcher_def)
qed

lemma send_message_frame:
  "users (snd (NotificationService_send_message t sender rid msg sid mt db)) = users db
   \<and> drivers (snd (NotificationService_send_message t sender rid msg sid mt db)) = drivers db
   \<and> shipments (snd (NotificationService_send_message t sender rid msg sid mt db))
       = shipments db"
  by (simp add: NotificationService_send_message_def Let_def split: option.splits)

lemma assign_frame:
  "users (snd (ShipmentService_assign_driver sid did db)) = users db
   \<and> drivers (snd (ShipmentService_assign_driver sid did db)) = drivers db
   \<and> messages (snd (ShipmentService_assign_driver sid did db)) = messages db
   \<and> users (snd (assign_driver sid did db)) = users db
   \<and> drivers (snd (assign_driver sid did db)) = drivers db
   \<and> messages (snd (assign_driver sid did db)) = messages db"
  by (simp add: ShipmentService_assign_driver_def assign_driver_def Let_def
           split: option.splits)

lemma update_status_frame:
  "users (snd (ShipmentService_update_status sid st db)) = users db
   \<and> drivers (snd (ShipmentService_update_status sid st db)) = drivers db
   \<and> messages (snd (ShipmentService_update_status sid st db)) = messages db
   \<and> users (snd (update_shipment_status sid st db)) = users db
   \<and> drivers (snd (update_shipment_status sid st db)) = drivers db
   \<and> messages (snd (update_shipment_status sid st db)) = messages db"
  by (simp add: ShipmentService_update_status_def update_shipment_status_def Let_def
           split: option.splits)

lemma assign_driver_equal: "assign_driver sid did db = (r, db') \<Longrightarrow>
   snd (ShipmentService_assign_driver sid did db) = db'"
  by (auto simp: ShipmentService_assign_driver_def assign_driver_def Let_def
           split: option.splits)

lemma update_status_equal:
  "snd (update_shipment_status sid st db) = snd (ShipmentService_update_status sid st db)"
  by (simp add: ShipmentService_update_status_def update_shipment_status_def Let_def
           split: option.splits)

lemma assign_driver_keeps_invariant:
  assumes "assignment_invariant db"
  shows "assignment_invariant (snd (ShipmentService_assign_driver sid did db))"
proof (cases "find (\<lambda>s. Shipment.id s = sid) (shipments db)")
  case None
  then show ?thesis using assms by (simp add: ShipmentService_assign_driver_def)
next
  case s: (Some s)
  show ?thesis
  proof (cases "find (\<lambda>d. Driver.id d = did) (drivers db)")
    case None
    then show ?thesis using assms s by (simp add: ShipmentService_assign_driver_def)
  next
    case d: (Some d)
    let ?s' = "s\<lparr>Shipment.driver_id := Some (Driver.id d), Shipment.status := ASSIGNED\<rparr>"
    let ?P = "\<lambda>x. assigned_or_later (Shipment.status x) \<longrightarrow> has_existing_driver db x"
    have "Driver.id d = did" using find_Some_holds [OF d] by simp
    then have "has_existing_driver db ?s'"
      using d by (simp add: has_existing_driver_def)
    then have "list_all ?P (update_first (\<lambda>s. Shipment.id s = sid) (\<lambda>x. ?s') (shipments db))"
      using assms by (intro list_all_update_first) (simp_all add: assignment_invariant_def)
    then show ?thesis
      using s d
      by (simp add: ShipmentService_assign_driver_def assignment_invariant_def
            has_existing_driver_shipments)
  qed
qed

lemma update_status_keeps_invariant:
  assumes "assignment_invariant db" and "update_keeps_driver db sid st"
  shows "assignment_invariant (snd (ShipmentService_update_status sid st db))"
proof (cases "find (\<lambda>s. Shipment.id s = sid) (shipments db)")
  case None
  then show ?thesis using assms by (simp add: ShipmentService_update_status_def)
next
  case s: (Some s)
  let ?s' = "s\<lparr>Shipment.status := st\<rparr>"
  let ?P = "\<lambda>x. assigned_or_later (Shipment.status x) \<longrightarrow> has_existing_driver db x"
  have "?P ?s'"
    using assms(2) s by (simp add: update_keeps_driver_def has_existing_driver_def)
  then have "list_all ?P (update_first (\<lambda>s. Shipment.id s = sid) (\<lambda>x. ?s') (shipments db))"
    using assms(1) by (intro list_all_update_first) (simp_all add: assignment_invariant_def)
  then show ?thesis
    using s
    by (simp add: ShipmentService_update_status_def assignment_invariant_def
          has_existing_driver_shipments)
qed

lemma step_keeps_invariant:
  assumes "assignment_invariant db" and "guarded db c"
  shows "assignment_invariant (snd (step vp cat c db))"
proof (cases c)
  case (AdminLogin e p t)
  then show ?thesis
    using assms(1) assignment_invariant_cong [of "snd (login vp cat t e p db)" db] login_frame
    by simp
next
  case (AdminAssignDriver sid did)
  then show ?thesis using assms(1) by (simp add: assign_driver_keeps_invariant)
next
  case (AdminUpdateStatus sid st)
  then show ?thesis using assms by (simp add: update_status_keeps_invariant)
next
  case (AdminSendMessage t sender rid msg sid mt)
  then show ?thesis
    using assms(1) send_message_frame
      assignment_invariant_cong
        [of "snd (NotificationService_send_message t sender rid msg sid mt db)" db]
    by simp
next
  case (DriverLogin e p)
  then show ?thesis using assms(1) by (simp add: dispatcher_login_state)
next
  case (DriverAssignDriver sid did)
  then show ?thesis
    using assms(1) assign_driver_keeps_invariant [of db sid did]
      assign_driver_equal [of sid did db "fst (assign_driver sid did db)"
        "snd (assign_driver sid did db)"]
    by simp
next
  case (DriverUpdateStatus sid st)
  then show ?thesis using assms by (simp add: update_status_keeps_invariant update_status_equal)
qed

text \<open>
  Claim C1, as stated: in every state reachable by the requests, a shipment whose status
  is ASSIGNED, IN_TRANSIT or DELIVERED has a driver_id that is the id of a stored
  driver. It fails: in the scenario the invariant holds, and one status update of the
  pending shipment SHP-001, which has no driver, to IN_TRANSIT (in either service)
  leads to a state where it does not.
\<close>

theorem update_status_breaks_assignment_invariant:
  "assignment_invariant scenario
   \<and> \<not> assignment_invariant
         (run plain_verify plain_token [AdminUpdateStatus 1 IN_TRANSIT] scenario)
   \<and> \<not> assignment_invariant
         (run plain_verify plain_token [DriverUpdateStatus 1 IN_TRANSIT] scenario)"
  by (simp add: assignment_invariant_def has_existing_driver_def scenario_def SHP_001_def
        ShipmentService_update_status_def update_shipment_status_def)

text \<open>
  Claim C1, amended. From a state where the invariant holds, every list of requests
  (logins, driver assignments, messages and status updates, of both services) in which
  each status update to ASSIGNED, IN_TRANSIT or DELIVERED is for a shipment that has an
  existing driver at that moment (or for an unknown shipment id) leads to a state where
  the invariant holds.
\<close>

theorem guarded_run_keeps_assignment_invariant:
  "assignment_invariant db \<Longrightarrow> guarded_run vp cat cs db
     \<Longrightarrow> assignment_invariant (run vp cat cs db)"
proof (induction cs arbitrary: db)
  case Nil
  then show ?case by simp
next
  case (Cons c cs)
  from Cons.prems have "assignment_invariant (snd (step vp cat c db))"
    by (simp add: step_keeps_invariant)
  with Cons show ?case by simp
qed

theorem guarded_run_keeps_assignment_invariant_witness:
  "assignment_invariant scenario
   \<and> guarded_run plain_verify plain_token
        [AdminUpdateStatus 1 CANCELLED, AdminAssignDriver 1 7, DriverUpdateStatus 1 IN_TRANSIT,
         AdminLogin ''dispatch@example.com'' ''secret'' 50,
         AdminSendMessage 60 dispatcher_1 5 ''On its way'' (Some 1) TO_CUSTOMER,
         AdminUpdateStatus 1 DELIVERED] scenario
   \<and> assignment_invariant
        (run plain_verify plain_token
          [AdminUpdateStatus 1 CANCELLED, AdminAssignDriver 1 7, DriverUpdateStatus 1 IN_TRANSIT,
           AdminLogin ''dispatch@example.com'' ''secret'' 50,
           AdminSendMessage 60 dispatcher_1 5 ''On its way'' (Some 1) TO_CUSTOMER,
           AdminUpdateStatus 1 DELIVERED] scenario)
   \<and> map Shipment.status
        (shipments (run plain_verify plain_token
          [AdminUpdateStatus 1 CANCELLED, AdminAssignDriver 1 7, DriverUpdateStatus 1 IN_TRANSIT,
           AdminLogin ''dispatch@example.com'' ''secret'' 50,
           AdminSendMessage 60 dispatcher_1 5 ''On its way'' (Some 1) TO_CUSTOMER,
           AdminUpdateStatus 1 DELIVERED] scenario)) = [DELIVERED]"
proof -
  let ?cs = "[AdminUpdateStatus 1 CANCELLED, AdminAssignDriver 1 7,
              DriverUpdateStatus 1 IN_TRANSIT,
              AdminLogin ''dispatch@example.com'' ''secret'' 50,
              AdminSendMessage 60 dispatcher_1 5 ''On its way'' (Some 1) TO_CUSTOMER,
              AdminUpdateStatus 1 DELIVERED]"
  have h1: "assignment_invariant scenario"
    by (simp add: assignment_invariant_def scenario_def SHP_001_def)
  have h2: "guarded_run plain_verify plain_token ?cs scenario"
    by (simp add: update_keeps_driver_def has_existing_driver_def scenario_def SHP_001_def
          driver_7_def dispatcher_1_def customer_5_def
          ShipmentService_update_status_def update_shipment_status_def
          ShipmentService_assign_driver_def login_def AuthService_authenticate_dispatcher_def
          NotificationService_send_message_def plain_verify_def Let_def)
  have h3: "map Shipment.status (shipments (run plain_verify plain_token ?cs scenario))
              = [DELIVERED]"
    by (simp add: scenario_def SHP_001_def
          driver_7_def dispatcher_1_def customer_5_def
          ShipmentService_update_status_def update_shipment_status_def
          ShipmentService_assign_driver_def login_def AuthService_authenticate_dispatcher_def
          NotificationService_send_message_def plain_verify_def Let_def)
  from guarded_run_keeps_assignment_invariant [OF h1 h2] h1 h2 h3 show ?thesis by simp
qed

section \<open>The ledger of sent messages\<close>

lemma find_by_id_iff:
  "(find (\<lambda>u. User.id u = k) us \<noteq> None) = (k \<in> set (map User.id us))"
  by (induction us) auto

lemma step_user_ids:
  "map User.id (users (snd (step vp cat c db))) = map User.id (users db)"
  by (cases c)
     (simp_all add: login_frame send_message_frame assign_frame update_status_frame
        dispatcher_login_state)

text \<open>
  What a request adds to the message table: one row on a successful send, with the
  sender's id and a recipient that exists, and nothing otherwise.
\<close>

lemma step_messages:
  "\<exists>new. messages (snd (step vp cat c db)) = messages db @ new
     \<and> length (filter (\<lambda>m. Message.sender_id m = uid) new)
         = (if is_send_by uid c \<and> succeeded (step vp cat c db) then 1 else 0)
     \<and> list_all (\<lambda>m. find (\<lambda>u. User.id u = Message.recipient_id m) (users db) \<noteq> None) new"
proof (cases c)
  case (AdminSendMessage t sender rid msg sid mt)
  show ?thesis
  proof (cases "find (\<lambda>u. User.id u = rid) (users db)")
    case None
    then show ?thesis
      using AdminSendMessage by (simp add: NotificationService_send_message_def)
  next
    case (Some r)
    let ?m = "\<lparr>Message.id = next_id (messages db), Message.sender_id = User.id sender,
               Message.recipient_id = rid, Message.shipment_id = sid,
               Message.content = msg, Message.message_type = mt,
               Message.created_at = t, Message.is_read = False\<rparr>"
    show ?thesis
      using AdminSendMessage Some
      by (intro exI [of _ "[?m]"]) (simp add: send_message_result [OF Some])
  qed
next
  case (AdminLogin e p t)
  then show ?thesis by (simp add: login_frame)
next
  case (AdminAssignDriver sid did)
  then show ?thesis by (simp add: assign_frame)
next
  case (AdminUpdateStatus sid st)
  then show ?thesis by (simp add: update_status_frame)
next
  case (DriverLogin e p)
  then show ?thesis by (simp add: dispatcher_login_state)
next
  case (DriverAssignDriver sid did)
  then show ?thesis by (simp add: assign_frame)
next
  case (DriverUpdateStatus sid st)
  then show ?thesis by (simp add: update_status_frame)
qed

lemma step_keeps_recipients:
  assumes "recipients_exist db"
  shows "recipients_exist (snd (step vp cat c db))"
proof -
  obtain new where new: "messages (snd (step vp cat c db)) = messages db @ new"
    and ok: "list_all (\<lambda>m. find (\<lambda>u. User.id u = Message.recipient_id m) (users db) \<noteq> None) new"
    using step_messages [of vp cat c db 0] by blast
  have ids: "map User.id (users (snd (step vp cat c db))) = map User.id (users db)"
    by (rule step_user_ids)
  show ?thesis
    using assms new ok
    unfolding recipients_exist_def find_by_id_iff ids by simp
qed

lemma step_sent_count:
  "length (filter (\<lambda>m. Message.sender_id m = uid) (messages (snd (step vp cat c db))))
     = length (filter (\<lambda>m. Message.sender_id m = uid) (messages db))
       + (if is_send_by uid c \<and> succeeded (step vp cat c db) then 1 else 0)"
proof -
  obtain new where "messages (snd (step vp cat c db)) = messages db @ new"
    and "length (filter (\<lambda>m. Message.sender_id m = uid) new)
           = (if is_send_by uid c \<and> succeeded (step vp cat c db) then 1 else 0)"
    using step_messages [of vp cat c db uid] by blast
  then show ?thesis by simp
qed

lemma run_keeps_recipients:
  "recipients_exist db \<Longrightarrow> recipients_exist (run vp cat cs db)"
  by (induction cs arbitrary: db) (simp_all add: step_keeps_recipients)

lemma run_sent_count:
  "length (filter (\<lambda>m. Message.sender_id m = uid) (messages (run vp cat cs db)))
     = length (filter (\<lambda>m. Message.sender_id m = uid) (messages db))
       + successful_sends vp cat uid cs db"
proof (induction cs arbitrary: db)
  case Nil
  show ?case by simp
next
  case (Cons c cs)
  show ?case
    using Cons.IH [of "snd (step vp cat c db)"] step_sent_count [of uid vp cat c db]
    by simp
qed

lemma comprehension_all_ok:
  "(\<And>x. x \<in> set xs \<Longrightarrow> \<exists>y. f x = Inr y)
     \<Longrightarrow> \<exists>ys. comprehension f xs = Inr ys \<and> length ys = length xs
           \<and> map Inr ys = map f xs"
proof (induction xs)
  case Nil
  show ?case by simp
next
  case (Cons x xs)
  obtain y where y: "f x = Inr y" using Cons.prems [of x] by auto
  obtain ys where ys: "comprehension f xs = Inr ys" "length ys = length xs"
      "map Inr ys = map f xs"
    using Cons.IH Cons.prems by auto
  show ?case using y ys by simp
qed

lemma sent_message_item_id:
  "sent_message_item db m = Inr y \<Longrightarrow> map_of y ''id'' = Some (JInt (Message.id m))"
  by (auto simp: sent_message_item_def split: option.splits)

lemma sent_message_item_ok:
  "find (\<lambda>u. User.id u = Message.recipient_id m) (users db) \<noteq> None
     \<Longrightarrow> \<exists>y. sent_message_item db m = Inr y"
  by (auto simp: sent_message_item_def)

lemma get_sent_messages_rows:
  assumes "recipients_exist db"
  shows "\<exists>rows. NotificationService_get_sent_messages u db = (Inr rows, db)
           \<and> length rows
               = length (filter (\<lambda>m. Message.sender_id m = User.id u) (messages db))
           \<and> map (\<lambda>row. map_of row ''id'') rows
               = map (\<lambda>m. Some (JInt (Message.id m)))
                   (filter (\<lambda>m. Message.sender_id m = User.id u) (messages db))"
proof -
  let ?ms = "filter (\<lambda>m. Message.sender_id m = User.id u) (messages db)"
  have "\<exists>y. sent_message_item db m = Inr y" if "m \<in> set ?ms" for m
    using that assms by (intro sent_message_item_ok) (simp add: recipients_exist_def list_all_iff)
  then obtain rows where r: "comprehension (sent_message_item db) ?ms = Inr rows"
    and l: "length rows = length ?ms"
    and e: "map Inr rows = map (sent_message_item db) ?ms"
    using comprehension_all_ok [of ?ms "sent_message_item db"] by blast
  have "map_of (rows ! i) ''id'' = Some (JInt (Message.id (?ms ! i)))" if "i < length ?ms" for i
  proof -
    have "map Inr rows ! i = map (sent_message_item db) ?ms ! i" using e by simp
    then have "sent_message_item db (?ms ! i) = Inr (rows ! i)" using that l by simp
    then show ?thesis by (rule sent_message_item_id)
  qed
  then have "map (\<lambda>row. map_of row ''id'') rows = map (\<lambda>m. Some (JInt (Message.id m))) ?ms"
    using l by (simp add: list_eq_iff_nth_eq)
  then show ?thesis using r l by (simp add: NotificationService_get_sent_messages_def)
qed

text \<open>
  Claim C6. A send to an existing recipient succeeds, appends exactly one message row,
  whose sender_id is the sender's id, and leaves every other record as it was. After any
  list of requests, the list of messages sent by a user has one row for each message of
  that user stored before plus one for each successful send by that user in the list: N
  rows after N successful sends when there were none before. The rows are, in order,
  those of the stored messages whose sender_id is that user's id.
\<close>

theorem send_appends_one_and_sent_list_counts:
  "(find (\<lambda>u. User.id u = rid) (users db) = Some r
      \<longrightarrow> (\<exists>receipt m. NotificationService_send_message t sender rid msg sid mt db
                          = (Inr receipt, db\<lparr>messages := messages db @ [m]\<rparr>)
             \<and> Message.sender_id m = User.id sender))
   \<and> (recipients_exist db
      \<longrightarrow> (\<exists>rows. NotificationService_get_sent_messages u (run vp cat cs db)
                      = (Inr rows, run vp cat cs db)
             \<and> length rows
                 = length (filter (\<lambda>m. Message.sender_id m = User.id u) (messages db))
                   + successful_sends vp cat (User.id u) cs db
             \<and> map (\<lambda>row. map_of row ''id'') rows
                 = map (\<lambda>m. Some (JInt (Message.id m)))
                     (filter (\<lambda>m. Message.sender_id m = User.id u)
                        (messages (run vp cat cs db)))
             \<and> (filter (\<lambda>m. Message.sender_id m = User.id u) (messages db) = []
                  \<longrightarrow> length rows = successful_sends vp cat (User.id u) cs db)))"
proof (intro conjI impI)
  let ?m = "\<lparr>Message.id = next_id (messages db), Message.sender_id = User.id sender,
             Message.recipient_id = rid, Message.shipment_id = sid,
             Message.content = msg, Message.message_type = mt,
             Message.created_at = t, Message.is_read = False\<rparr>"
  assume found: "find (\<lambda>u. User.id u = rid) (users db) = Some r"
  show "\<exists>receipt m. NotificationService_send_message t sender rid msg sid mt db
                          = (Inr receipt, db\<lparr>messages := messages db @ [m]\<rparr>)
             \<and> Message.sender_id m = User.id sender"
    by (rule exI, rule exI [of _ ?m])
       (simp add: send_message_result [OF found, of t sender msg sid mt])
next
  assume "recipients_exist db"
  then have "recipients_exist (run vp cat cs db)" by (rule run_keeps_recipients)
  then obtain rows where
    rows: "NotificationService_get_sent_messages u (run vp cat cs db)
             = (Inr rows, run vp cat cs db)"
    and len: "length rows = length (filter (\<lambda>m. Message.sender_id m = User.id u)
                                       (messages (run vp cat cs db)))"
    and ids: "map (\<lambda>row. map_of row ''id'') rows
                = map (\<lambda>m. Some (JInt (Message.id m)))
                    (filter (\<lambda>m. Message.sender_id m = User.id u)
                       (messages (run vp cat cs db)))"
    using get_sent_messages_rows by blast
  show "\<exists>rows. NotificationService_get_sent_messages u (run vp cat cs db)
                      = (Inr rows, run vp cat cs db)
             \<and> length rows
                 = length (filter (\<lambda>m. Message.sender_id m = User.id u) (messages db))
                   + successful_sends vp cat (User.id u) cs db
             \<and> map (\<lambda>row. map_of row ''id'') rows
                 = map (\<lambda>m. Some (JInt (Message.id m)))
                     (filter (\<lambda>m. Message.sender_id m = User.id u)
                        (messages (run vp cat cs db)))
             \<and> (filter (\<lambda>m. Message.sender_id m = User.id u) (messages db) = []
                  \<longrightarrow> length rows = successful_sends vp cat (User.id u) cs db)"
    using rows len ids run_sent_count [of "User.id u" vp cat cs db]
    by (intro exI [of _ rows]) simp
qed


theorem send_appends_one_and_sent_list_counts_witness:
  "find (\<lambda>u. User.id u = 5) (users scenario) = Some customer_5
   \<and> (\<exists>receipt m. NotificationService_send_message 50 dispatcher_1 5 ''Delayed'' (Some 1)
                      TO_CUSTOMER scenario
                    = (Inr receipt, scenario\<lparr>messages := messages scenario @ [m]\<rparr>)
         \<and> Message.sender_id m = 1)
   \<and> recipients_exist scenario
   \<and> filter (\<lambda>m. Message.sender_id m = User.id dispatcher_1) (messages scenario) = []
   \<and> successful_sends plain_verify plain_token 1
        [AdminSendMessage 50 dispatcher_1 5 ''Delayed'' (Some 1) TO_CUSTOMER,
         AdminSendMessage 51 customer_5 1 ''Thanks'' None TO_DRIVER,
         AdminSendMessage 52 dispatcher_1 99 ''Lost'' None TO_DRIVER,
         AdminAssignDriver 1 7,
         AdminSendMessage 53 dispatcher_1 8 ''Pick up'' (Some 1) TO_DRIVER] scenario = 2
   \<and> (\<exists>rows. NotificationService_get_sent_messages dispatcher_1
                 (run plain_verify plain_token
                   [AdminSendMessage 50 dispatcher_1 5 ''Delayed'' (Some 1) TO_CUSTOMER,
                    AdminSendMessage 51 customer_5 1 ''Thanks'' None TO_DRIVER,
                    AdminSendMessage 52 dispatcher_1 99 ''Lost'' None TO_DRIVER,
                    AdminAssignDriver 1 7,
                    AdminSendMessage 53 dispatcher_1 8 ''Pick up'' (Some 1) TO_DRIVER] scenario)
               = (Inr rows,
                  run plain_verify plain_token
                   [AdminSendMessage 50 dispatcher_1 5 ''Delayed'' (Some 1) TO_CUSTOMER,
                    AdminSendMessage 51 customer_5 1 ''Thanks'' None TO_DRIVER,
                    AdminSendMessage 52 dispatcher_1 99 ''Lost'' None TO_DRIVER,
                    AdminAssignDriver 1 7,
                    AdminSendMessage 53 dispatcher_1 8 ''Pick up'' (Some 1) TO_DRIVER] scenario)
         \<and> length rows = 2)"
proof -
  let ?cs = "[AdminSendMessage 50 dispatcher_1 5 ''Delayed'' (Some 1) TO_CUSTOMER,
              AdminSendMessage 51 customer_5 1 ''Thanks'' None TO_DRIVER,
              AdminSendMessage 52 dispatcher_1 99 ''Lost'' None TO_DRIVER,
              AdminAssignDriver 1 7,
              AdminSendMessage 53 dispatcher_1 8 ''Pick up'' (Some 1) TO_DRIVER]"
  have h1: "find (\<lambda>u. User.id u = 5) (users scenario) = Some customer_5"
    by (simp add: scenario_def dispatcher_1_def customer_5_def)
  have h2: "recipients_exist scenario"
    by (simp add: recipients_exist_def scenario_def)
  have h3: "filter (\<lambda>m. Message.sender_id m = User.id dispatcher_1) (messages scenario) = []"
    by (simp add: scenario_def)
  have h4: "successful_sends plain_verify plain_token (User.id dispatcher_1) ?cs scenario
              = successful_sends plain_verify plain_token 1 ?cs scenario"
    by (simp only: dispatcher_1_def User.simps)
  have h6: "User.id dispatcher_1 = 1"
    by (simp add: dispatcher_1_def)
  have h5: "successful_sends plain_verify plain_token 1 ?cs scenario = 2"
    by (simp add: scenario_def dispatcher_1_def customer_5_def driver_user_8_def
          driver_7_def SHP_001_def NotificationService_send_message_def
          ShipmentService_assign_driver_def Let_def)
  note a = send_appends_one_and_sent_list_counts
    [where rid = 5 and db = scenario and r = customer_5 and t = 50 and sender = dispatcher_1
       and msg = "''Delayed''" and sid = "Some 1" and mt = TO_CUSTOMER
       and u = dispatcher_1 and vp = plain_verify and cat = plain_token and cs = ?cs]
  from a h1 have first:
    "\<exists>receipt m. NotificationService_send_message 50 dispatcher_1 5 ''Delayed'' (Some 1)
                      TO_CUSTOMER scenario
                    = (Inr receipt, scenario\<lparr>messages := messages scenario @ [m]\<rparr>)
         \<and> Message.sender_id m = 1"
    unfolding h6 by blast
  from a h2 obtain rows where
    rows: "NotificationService_get_sent_messages dispatcher_1
             (run plain_verify plain_token ?cs scenario)
           = (Inr rows, run plain_verify plain_token ?cs scenario)"
    and len: "length rows
                = length (filter (\<lambda>m. Message.sender_id m = User.id dispatcher_1)
                            (messages scenario))
                  + successful_sends plain_verify plain_token (User.id dispatcher_1) ?cs scenario"
    by blast
  have "length rows = 2" using len by (simp only: h3 h4 h5) simp
  with rows have second:
    "\<exists>rows. NotificationService_get_sent_messages dispatcher_1
                 (run plain_verify plain_token ?cs scenario)
               = (Inr rows, run plain_verify plain_token ?cs scenario)
         \<and> length rows = 2"
    by blast
  from h1 first h2 h3 h5 second show ?thesis by blast
qed

end
